theory Spec2Isabelle
  imports Main
begin

section \<open>Python primitives used by disk\_size.py\<close>

text \<open>
  Text is a \<^typ>\<open>string\<close>; a character stands for a code point below 256.  The
  exceptions the program can meet are values of \<open>error\<close>; a fallible expression
  has a result of type \<open>error + 'a\<close>, with \<open>Inl\<close> for the raised exception.
\<close>

datatype error = ValueError | IndexError | TypeError

text \<open>\<open>xs[i]\<close>: a negative index counts from the end, anything else out of range raises.\<close>

definition py_getitem :: "'a list \<Rightarrow> int \<Rightarrow> error + 'a" where
  "py_getitem xs i =
     (let n = int (length xs); j = (if i < 0 then i + n else i)
      in if 0 \<le> j \<and> j < n then Inr (xs ! nat j) else Inl IndexError)"

text \<open>\<open>str.isspace\<close> on one character (code points below 256).\<close>

definition py_isspace :: "char \<Rightarrow> bool" where
  "py_isspace c = (of_char c \<in> {9, 10, 11, 12, 13, 28, 29, 30, 31, 32, 133, 160 :: nat})"

text \<open>\<open>s.strip()\<close>\<close>

definition py_strip :: "string \<Rightarrow> string" where
  "py_strip s = rev (dropWhile py_isspace (rev (dropWhile py_isspace s)))"

text \<open>\<open>s.split(' ')\<close>: cut at every single separator; adjacent separators give empty fields.\<close>

fun py_split_sep :: "char \<Rightarrow> string \<Rightarrow> string list" where
  "py_split_sep sep [] = [[]]"
| "py_split_sep sep (c # cs) =
     (if c = sep then [] # py_split_sep sep cs
      else (case py_split_sep sep cs of
              [] \<Rightarrow> [[c]]
            | w # ws \<Rightarrow> (c # w) # ws))"

text \<open>\<open>s.split()\<close>: the maximal runs of non-whitespace characters, none of them empty.\<close>

fun py_split_ws :: "string \<Rightarrow> string \<Rightarrow> string list" where
  "py_split_ws cur [] = (if cur = [] then [] else [cur])"
| "py_split_ws cur (c # cs) =
     (if py_isspace c then (if cur = [] then py_split_ws [] cs else cur # py_split_ws [] cs)
      else py_split_ws (cur @ [c]) cs)"

definition py_split :: "string \<Rightarrow> string list" where
  "py_split s = py_split_ws [] s"

text \<open>
  \<open>int(s)\<close> for a string: surrounding whitespace is dropped, one sign is allowed, then
  decimal digits, with single underscores between digits.  \<open>None\<close> stands for
  \<open>ValueError\<close>.  The conversion leaves the characters below 127 as they are and then
  skips the whitespace of the C locale, so the separators 28-31, which \<open>strip\<close> removes,
  are not whitespace here.  (The interpreter's optional limit on the number of digits is
  not modelled.)
\<close>

definition py_int_isspace :: "char \<Rightarrow> bool" where
  "py_int_isspace c = (of_char c \<in> {9, 10, 11, 12, 13, 32, 133, 160 :: nat})"

definition py_isdigit :: "char \<Rightarrow> bool" where
  "py_isdigit c = (48 \<le> (of_char c :: nat) \<and> (of_char c :: nat) \<le> 57)"

fun py_digits :: "bool \<Rightarrow> int \<Rightarrow> string \<Rightarrow> int option" where
  "py_digits prev acc [] = (if prev then Some acc else None)"
| "py_digits prev acc (c # cs) =
     (if py_isdigit c then py_digits True (10 * acc + (of_char c - 48)) cs
      else if c = CHR ''_'' \<and> prev then py_digits False acc cs
      else None)"

definition py_int :: "string \<Rightarrow> int option" where
  "py_int s =
     (case rev (dropWhile py_int_isspace (rev (dropWhile py_int_isspace s))) of
        [] \<Rightarrow> None
      | c # cs \<Rightarrow>
          if c = CHR ''-'' then map_option uminus (py_digits False 0 cs)
          else if c = CHR ''+'' then py_digits False 0 cs
          else py_digits False 0 (c # cs))"

text \<open>\<open>str(n)\<close> for an integer.\<close>

function str_digits :: "int \<Rightarrow> string" where
  "str_digits n =
     (if n < 10 then [char_of (48 + n)]
      else str_digits (n div 10) @ [char_of (48 + n mod 10)])"
  by pat_completeness auto
termination
  by (relation "measure nat") auto

declare str_digits.simps [simp del]

definition str_int :: "int \<Rightarrow> string" where
  "str_int i = (if i < 0 then CHR ''-'' # str_digits (- i) else str_digits i)"

text \<open>\<open>sep.join(xs)\<close>\<close>

fun py_join :: "string \<Rightarrow> string list \<Rightarrow> string" where
  "py_join sep [] = []"
| "py_join sep [x] = x"
| "py_join sep (x # y # ys) = x @ sep @ py_join sep (y # ys)"

text \<open>A list comprehension whose body can raise: the first exception ends it.\<close>

fun map_err :: "('a \<Rightarrow> error + 'b) \<Rightarrow> 'a list \<Rightarrow> error + 'b list" where
  "map_err f [] = Inr []"
| "map_err f (x # xs) =
     (case f x of
        Inl e \<Rightarrow> Inl e
      | Inr y \<Rightarrow> (case map_err f xs of Inl e \<Rightarrow> Inl e | Inr ys \<Rightarrow> Inr (y # ys)))"

section \<open>The process: standard output and the external queries\<close>

text \<open>
  The program's effects are what it writes to standard output and the queries it sends
  to the operating system.  \<open>stdout\<close> is the text written so far, \<open>calls\<close> the queries
  issued so far, in order.  What a query answers may change from one query to the next,
  so the operating system is a function of the number of queries already issued.
\<close>

record state =
  stdout :: string
  calls :: "string list"

type_synonym 'a result = "(error + 'a) \<times> state"

text \<open>\<open>print(s)\<close> writes \<open>s\<close> and a newline.\<close>

definition py_print :: "string \<Rightarrow> state \<Rightarrow> state" where
  "py_print s st = st\<lparr>stdout := stdout st @ s @ [CHR 0x0A]\<rparr>"

text \<open>A call whose value is not used: its effects and its exception remain.\<close>

definition discard :: "'a result \<Rightarrow> unit result" where
  "discard r = (case r of (Inl e, st) \<Rightarrow> (Inl e, st) | (Inr _, st) \<Rightarrow> (Inr (), st))"

text \<open>\<open>os.popen(cmd).readlines()\<close>: the lines the command writes, each with its line end.\<close>

type_synonym posix_os = "nat \<Rightarrow> string \<Rightarrow> string list"

definition os_popen :: "posix_os \<Rightarrow> string \<Rightarrow> state \<Rightarrow> string list \<times> state" where
  "os_popen w cmd st = (w (length (calls st)) cmd, st\<lparr>calls := calls st @ [cmd]\<rparr>)"

section \<open>LinuxOSDiskChecker\<close>

definition lsblk_disk_cmd :: string where
  "lsblk_disk_cmd = ''lsblk -o NAME,TYPE,SIZE | grep '' @ [CHR 0x27] @ ''disk'' @ [CHR 0x27]"

definition lsblk_path_cmd :: "string \<Rightarrow> string" where
  "lsblk_path_cmd hard_drive_path = ''lsblk '' @ hard_drive_path @ '' -o NAME,TYPE,SIZE''"

text \<open>Lines 39-42: a record \<open>[path, size]\<close> is a pair.\<close>

definition L_hard_drives :: "string list \<Rightarrow> string list list" where
  "L_hard_drives lines = map (\<lambda>disk. py_split_sep (CHR '' '') (py_strip disk)) lines"

definition L_hard_drives_data :: "string list list \<Rightarrow> error + (string \<times> string) list" where
  "L_hard_drives_data hard_drives =
     map_err (\<lambda>drive.
        case py_getitem drive 0 of
          Inl e \<Rightarrow> Inl e
        | Inr name \<Rightarrow>
            (case py_getitem drive (- 1) of
               Inl e \<Rightarrow> Inl e
             | Inr sz \<Rightarrow> Inr (''/dev/'' @ name, sz))) hard_drives"

text \<open>Lines 49-50: the numbered rows, \<open>enumerate(..., start=1)\<close>.\<close>

fun L_print_rows :: "nat \<Rightarrow> (string \<times> string) list \<Rightarrow> state \<Rightarrow> state" where
  "L_print_rows index [] st = st"
| "L_print_rows index ((drive_name, drive_size) # rest) st =
     L_print_rows (Suc index) rest
       (py_print (str_int (int index) @ ''. '' @ drive_name @ '' -> '' @ drive_size) st)"

definition L_header :: "nat \<Rightarrow> string" where
  "L_header n =
     ''You have '' @ str_int (int n) @ '' hard '' @ (if n > 1 then ''drives'' else ''drive'')
       @ '' installed: '' @ [CHR 0x0A]"

text \<open>\<open>check_disks\<close>: the records when \<open>return_data\<close> is set, else \<open>None\<close> after printing.\<close>

definition L_check_disks ::
  "posix_os \<Rightarrow> bool \<Rightarrow> state \<Rightarrow> (string \<times> string) list option result" where
  "L_check_disks w return_data st =
     (case os_popen w lsblk_disk_cmd st of
        (lines, st1) \<Rightarrow>
          (case L_hard_drives_data (L_hard_drives lines) of
             Inl e \<Rightarrow> (Inl e, st1)
           | Inr hard_drives_data \<Rightarrow>
               if return_data then (Inr (Some hard_drives_data), st1)
               else (Inr None,
                     L_print_rows 1 hard_drives_data
                       (py_print (L_header (length hard_drives_data)) st1))))"

text \<open>Lines 77-83 of \<open>check_specific_drive\<close>, once \<open>hard_drive_path\<close> is known.\<close>

definition L_partitions :: "posix_os \<Rightarrow> string \<Rightarrow> string \<Rightarrow> state \<Rightarrow> unit result" where
  "L_partitions w hard_drive_path inp st =
     (case os_popen w (lsblk_path_cmd hard_drive_path) st of
        (partitions, st1) \<Rightarrow>
          if partitions \<noteq> [] then
            (case py_getitem partitions 1 of
               Inl e \<Rightarrow> (Inl e, st1)
             | Inr line \<Rightarrow>
                 (case py_getitem (py_split line) 0 of
                    Inl e \<Rightarrow> (Inl e, st1)
                  | Inr name \<Rightarrow>
                      (Inr (),
                       py_print (concat partitions)
                         (py_print (''Below are the partitions for '' @ [CHR 0x22] @ ''/dev/''
                                     @ name @ [CHR 0x22] @ '' drive:'') st1))))
          else (Inr (), py_print (''Drive '' @ inp @ '' not found!'') st1))"

text \<open>
  \<open>check_specific_drive\<close>.  The outer \<open>try\<close> (lines 58-74) catches \<open>ValueError\<close> only,
  also one raised by either call of \<open>check_disks\<close>; the inner one catches the
  \<open>IndexError\<close> of line 66 only.
\<close>

definition L_check_specific_drive :: "posix_os \<Rightarrow> string \<Rightarrow> state \<Rightarrow> unit result" where
  "L_check_specific_drive w inp st =
     (case py_int inp of
        None \<Rightarrow> L_partitions w inp inp st
      | Some n \<Rightarrow>
          (let hard_drive_id = n - 1 in
           case L_check_disks w True st of
             (Inl ValueError, st1) \<Rightarrow> L_partitions w inp inp st1
           | (Inl e, st1) \<Rightarrow> (Inl e, st1)
           | (Inr None, st1) \<Rightarrow> (Inl TypeError, st1)
           | (Inr (Some disks_list), st1) \<Rightarrow>
               (case py_getitem disks_list hard_drive_id of
                  Inl IndexError \<Rightarrow>
                    (case L_check_disks w False
                            (py_print ''Please enter the correct hard drive id!'' st1) of
                       (Inl ValueError, st2) \<Rightarrow> L_partitions w inp inp st2
                     | r \<Rightarrow> discard r)
                | Inl e \<Rightarrow> (Inl e, st1)
                | Inr drive \<Rightarrow> L_partitions w (fst drive) inp st1)))"

section \<open>WindowsOSDiskChecker\<close>

text \<open>
  What the backend reads from outside the program: the \<open>Win32_DiskDrive\<close> objects of the
  instrumentation interface, the volumes of \<open>psutil.disk_partitions()\<close> (an opaque type
  \<open>'v\<close>), the formatter \<open>size\<close> of \<open>hurry.filesize\<close> and \<open>str\<close> on a volume.  The \<open>size\<close>
  attribute of a drive is whatever the interface delivers: nothing, a string or a number.
  The model is of a process in which the \<open>wmi\<close> module was imported, so that \<open>self.cas\<close>
  exists; \<open>size\<close> and \<open>str\<close> are total.
\<close>

datatype pyval = PNone | PStr string | PInt int

text \<open>\<open>int(v)\<close>\<close>

definition py_int_of :: "pyval \<Rightarrow> error + int" where
  "py_int_of v =
     (case v of
        PNone \<Rightarrow> Inl TypeError
      | PStr s \<Rightarrow> (case py_int s of None \<Rightarrow> Inl ValueError | Some n \<Rightarrow> Inr n)
      | PInt n \<Rightarrow> Inr n)"

record disk_drive =
  DeviceID :: string
  Description :: string
  size_attr :: pyval

record 'v windows_os =
  Win32_DiskDrive :: "nat \<Rightarrow> disk_drive list"
  disk_partitions :: "nat \<Rightarrow> 'v list"
  filesize :: "int \<Rightarrow> string"
  volume_str :: "'v \<Rightarrow> string"

text \<open>A drive is a list \<open>[index, id, description, size]\<close>, with a volume appended on request.\<close>

datatype 'v field = FInt int | FStr string | FVol 'v

definition py_str :: "'v windows_os \<Rightarrow> 'v field \<Rightarrow> string" where
  "py_str w x = (case x of FInt i \<Rightarrow> str_int i | FStr s \<Rightarrow> s | FVol v \<Rightarrow> volume_str w v)"

text \<open>\<open>s.replace(c, '')\<close> for a single character \<open>c\<close>.\<close>

definition py_remove :: "char \<Rightarrow> string \<Rightarrow> string" where
  "py_remove c s = filter (\<lambda>x. x \<noteq> c) s"

text \<open>Lines 97-100, \<open>enumerate(..., start=1)\<close>; only \<open>int(d.size)\<close> can raise.\<close>

fun W_drives_data ::
  "'v windows_os \<Rightarrow> nat \<Rightarrow> disk_drive list \<Rightarrow> error + 'v field list list" where
  "W_drives_data w index [] = Inr []"
| "W_drives_data w index (d # ds) =
     (case py_int_of (size_attr d) of
        Inl e \<Rightarrow> Inl e
      | Inr n \<Rightarrow>
          (case W_drives_data w (Suc index) ds of
             Inl e \<Rightarrow> Inl e
           | Inr rest \<Rightarrow>
               Inr ([FInt (int index),
                     FStr (py_remove (CHR 0x5C) (py_remove (CHR ''.'') (DeviceID d))),
                     FStr (Description d),
                     FStr (filesize w n)] # rest)))"

text \<open>Line 105: \<open>zip\<close> stops at the shorter list; the paired drives get the volume appended.\<close>

fun W_map_volumes :: "'v field list list \<Rightarrow> 'v list \<Rightarrow> 'v field list list" where
  "W_map_volumes (drive # drives) (volume # volumes) =
     (drive @ [FVol volume]) # W_map_volumes drives volumes"
| "W_map_volumes drives volumes = drives"

text \<open>Lines 109-110\<close>

fun W_print_rows :: "'v windows_os \<Rightarrow> 'v field list list \<Rightarrow> state \<Rightarrow> state" where
  "W_print_rows w [] st = st"
| "W_print_rows w (drive # rest) st =
     W_print_rows w rest (py_print (py_join ''  '' (map (py_str w) drive)) st)"

definition W_query :: "(nat \<Rightarrow> 'a) \<Rightarrow> string \<Rightarrow> state \<Rightarrow> 'a \<times> state" where
  "W_query q name st = (q (length (calls st)), st\<lparr>calls := calls st @ [name]\<rparr>)"

definition W_check_disks ::
  "'v windows_os \<Rightarrow> bool \<Rightarrow> state \<Rightarrow> 'v field list list option result" where
  "W_check_disks w return_data st =
     (case W_query (Win32_DiskDrive w) ''Win32_DiskDrive'' st of
        (drives, st1) \<Rightarrow>
          (case W_drives_data w 1 drives of
             Inl e \<Rightarrow> (Inl e, st1)
           | Inr drives_data \<Rightarrow>
               if return_data then
                 (case W_query (disk_partitions w) ''disk_partitions'' st1 of
                    (volumes, st2) \<Rightarrow> (Inr (Some (W_map_volumes drives_data volumes)), st2))
               else
                 (Inr None,
                  W_print_rows w drives_data
                    (py_print (''You have '' @ str_int (int (length drives_data))
                                @ '' hard drives installed'') st1))))"

text \<open>The two handlers of \<open>check_specific_drive\<close>, lines 122-125 and 126-128.\<close>

definition W_except_ValueError :: "'v windows_os \<Rightarrow> state \<Rightarrow> unit result" where
  "W_except_ValueError w st =
     discard (W_check_disks w False
       (py_print (''Please enter valid disk (whole) number! Reference below. '' @ [CHR 0x0A]) st))"

definition W_except_IndexError :: "'v windows_os \<Rightarrow> state \<Rightarrow> unit result" where
  "W_except_IndexError w st =
     discard (W_check_disks w False
       (py_print ''Disk with that index does not exist! Please try again.'' st))"

definition W_check_specific_drive :: "'v windows_os \<Rightarrow> string \<Rightarrow> state \<Rightarrow> unit result" where
  "W_check_specific_drive w inp st =
     (case py_int inp of
        None \<Rightarrow> W_except_ValueError w st
      | Some n \<Rightarrow>
          (let disk_id = n - 1 in
           case W_check_disks w True st of
             (Inl ValueError, st1) \<Rightarrow> W_except_ValueError w st1
           | (Inl IndexError, st1) \<Rightarrow> W_except_IndexError w st1
           | (Inl e, st1) \<Rightarrow> (Inl e, st1)
           | (Inr None, st1) \<Rightarrow> (Inl TypeError, st1)
           | (Inr (Some hard_drives), st1) \<Rightarrow>
               (case py_getitem hard_drives disk_id of
                  Inl ValueError \<Rightarrow> W_except_ValueError w st1
                | Inl IndexError \<Rightarrow> W_except_IndexError w st1
                | Inl e \<Rightarrow> (Inl e, st1)
                | Inr drive \<Rightarrow>
                    (Inr (), py_print (py_join ''  '' (map (py_str w) drive)) st1))))"

section \<open>The constructor and the entry point\<close>

text \<open>
  \<open>__init__\<close>, lines 15-19: \<open>if hard_drive\<close> is Python's truth test, false for \<open>None\<close> and
  for the empty string.
\<close>

definition L_init :: "posix_os \<Rightarrow> string option \<Rightarrow> state \<Rightarrow> unit result" where
  "L_init w hard_drive st =
     (case hard_drive of
        None \<Rightarrow> discard (L_check_disks w False st)
      | Some s \<Rightarrow>
          if s \<noteq> [] then L_check_specific_drive w s st
          else discard (L_check_disks w False st))"

definition W_init :: "'v windows_os \<Rightarrow> string option \<Rightarrow> state \<Rightarrow> unit result" where
  "W_init w hard_drive st =
     (case hard_drive of
        None \<Rightarrow> discard (W_check_disks w False st)
      | Some s \<Rightarrow>
          if s \<noteq> [] then W_check_specific_drive w s st
          else discard (W_check_disks w False st))"

text \<open>Lines 131-138; \<open>argv\<close> is \<open>sys.argv\<close>, \<open>os_name\<close> is \<open>os.name\<close>.\<close>

definition main :: "posix_os \<Rightarrow> 'v windows_os \<Rightarrow> string \<Rightarrow> string list \<Rightarrow> state \<Rightarrow> unit result" where
  "main lw ww os_name argv st =
     (let disk = (if length argv > 1 then Some (argv ! 1) else None)
      in if os_name = ''posix'' then L_init lw disk st
         else if os_name = ''nt'' then W_init ww disk st
         else (Inr (), py_print ''OS not supported!'' st))"

section \<open>Example machines\<close>

text \<open>
  Concrete inputs on which the definitions are evaluated: a process that has printed and
  queried nothing, a POSIX host with two disks, and a Windows host with two drives and a
  single volume.
\<close>

definition fresh :: state where
  "fresh = \<lparr>stdout = [], calls = []\<rparr>"

definition two_disks :: posix_os where
  "two_disks t cmd =
     (if cmd = lsblk_disk_cmd then
        [''sda disk 232.9G'' @ [CHR 0x0A], ''sdb disk 1T'' @ [CHR 0x0A]]
      else if cmd = lsblk_path_cmd ''/dev/sda'' then
        [''NAME TYPE SIZE'' @ [CHR 0x0A], ''sda disk 232.9G'' @ [CHR 0x0A]]
      else if cmd = lsblk_path_cmd ''/dev/sdb'' then
        [''NAME TYPE SIZE'' @ [CHR 0x0A], ''sdb disk 1T'' @ [CHR 0x0A]]
      else if cmd = lsblk_path_cmd ''-V'' then
        [''lsblk from util-linux 2.37.2'' @ [CHR 0x0A]]
      else [])"

definition two_drives :: "string windows_os" where
  "two_drives =
     \<lparr>Win32_DiskDrive = (\<lambda>t.
        [\<lparr>DeviceID = [CHR 0x5C, CHR 0x5C, CHR ''.'', CHR 0x5C] @ ''PHYSICALDRIVE0'',
          Description = ''Disk drive'', size_attr = PStr ''500105249280''\<rparr>,
         \<lparr>DeviceID = [CHR 0x5C, CHR 0x5C, CHR ''.'', CHR 0x5C] @ ''PHYSICALDRIVE1'',
          Description = ''Disk drive'', size_attr = PStr ''1000202273280''\<rparr>]),
      disk_partitions = (\<lambda>t. [''C:'']),
      filesize = (\<lambda>n. str_int (n div 1073741824) @ ''G''),
      volume_str = (\<lambda>v. v)\<rparr>"


section \<open>Supporting lemmas\<close>

subsection \<open>Indexing and splitting\<close>

lemma py_split_sep_nonempty: "py_split_sep sep s \<noteq> []"
  by (induction s) (auto split: list.splits)

lemma py_getitem_first: "xs \<noteq> [] \<Longrightarrow> py_getitem xs 0 = Inr (hd xs)"
  by (cases xs) (simp_all add: py_getitem_def)

lemma py_getitem_last: "xs \<noteq> [] \<Longrightarrow> py_getitem xs (- 1) = Inr (last xs)"
  by (simp add: py_getitem_def Let_def last_conv_nth nat_diff_distrib' int_ops)

subsection \<open>The POSIX enumeration never raises\<close>

lemma L_hard_drives_data_total:
  "\<exists>data. L_hard_drives_data (L_hard_drives lines) = Inr data \<and> length data = length lines"
  unfolding L_hard_drives_data_def L_hard_drives_def
  by (induction lines)
     (auto simp: py_getitem_first py_getitem_last py_split_sep_nonempty)

lemma L_print_rows_effect:
  "\<exists>p. \<forall>st. L_print_rows i rows st = st\<lparr>stdout := stdout st @ p\<rparr>"
proof (induction rows arbitrary: i)
  case Nil
  show ?case by (rule exI [of _ "[]"]) simp
next
  case (Cons r rows)
  obtain a b where r: "r = (a, b)" by (cases r)
  from Cons [of "Suc i"] obtain p where
    p: "\<And>st. L_print_rows (Suc i) rows st = st\<lparr>stdout := stdout st @ p\<rparr>"
    by blast
  show ?case
    by (rule exI [of _ "(str_int (int i) @ ''. '' @ a @ '' -> '' @ b) @ [CHR 0x0A] @ p"])
       (simp add: r p py_print_def)
qed

lemma L_check_disks_True:
  "\<exists>data. L_check_disks w True st = (Inr (Some data), st\<lparr>calls := calls st @ [lsblk_disk_cmd]\<rparr>)
     \<and> L_hard_drives_data (L_hard_drives (w (length (calls st)) lsblk_disk_cmd)) = Inr data
     \<and> length data = length (w (length (calls st)) lsblk_disk_cmd)"
  using L_hard_drives_data_total [of "w (length (calls st)) lsblk_disk_cmd"]
  by (auto simp: L_check_disks_def os_popen_def)

lemma L_check_disks_False:
  "\<exists>p. \<forall>w st. w (length (calls st)) lsblk_disk_cmd = lines \<longrightarrow>
      L_check_disks w False st =
        (Inr None, st\<lparr>stdout := stdout st @ p, calls := calls st @ [lsblk_disk_cmd]\<rparr>)"
proof -
  obtain data where d: "L_hard_drives_data (L_hard_drives lines) = Inr data"
    using L_hard_drives_data_total by blast
  obtain q where q: "\<And>st. L_print_rows (Suc 0) data st = st\<lparr>stdout := stdout st @ q\<rparr>"
    using L_print_rows_effect by blast
  show ?thesis
    by (rule exI [of _ "L_header (length data) @ [CHR 0x0A] @ q"])
       (simp add: L_check_disks_def os_popen_def d q py_print_def)
qed

lemma L_check_disks_never_raises: "fst (L_check_disks w return_data st) \<noteq> Inl e"
proof (cases return_data)
  case True
  then show ?thesis using L_check_disks_True [of w st] by auto
next
  case False
  then show ?thesis
    using L_check_disks_False [of "w (length (calls st)) lsblk_disk_cmd"] by auto
qed

subsection \<open>The Windows enumeration\<close>

lemma W_drives_data_no_volume:
  "W_drives_data w i drives = Inr dd \<Longrightarrow> row \<in> set dd \<Longrightarrow> length row = 4 \<and> FVol v \<notin> set row"
  by (induction drives arbitrary: i dd) (auto split: sum.splits)

lemma W_drives_data_length:
  "W_drives_data w i drives = Inr dd \<Longrightarrow> length dd = length drives"
  by (induction drives arbitrary: i dd) (auto split: sum.splits)

lemma W_map_volumes_length: "length (W_map_volumes drives volumes) = length drives"
  by (induction drives volumes rule: W_map_volumes.induct) auto

lemma W_map_volumes_nth:
  "i < length drives \<Longrightarrow>
     W_map_volumes drives volumes ! i =
       (if i < length volumes then drives ! i @ [FVol (volumes ! i)] else drives ! i)"
proof (induction drives volumes arbitrary: i rule: W_map_volumes.induct)
  case (1 drive drives volume volumes)
  then show ?case by (cases i) auto
qed auto

lemma W_print_rows_effect:
  "\<exists>p. \<forall>st. W_print_rows w rows st = st\<lparr>stdout := stdout st @ p\<rparr>"
proof (induction rows)
  case Nil
  show ?case by (rule exI [of _ "[]"]) simp
next
  case (Cons r rows)
  then obtain p where p: "\<And>st. W_print_rows w rows st = st\<lparr>stdout := stdout st @ p\<rparr>"
    by blast
  show ?case
    by (rule exI [of _ "py_join ''  '' (map (py_str w) r) @ [CHR 0x0A] @ p"])
       (simp add: p py_print_def)
qed

lemma W_check_disks_False:
  "\<exists>p r. \<forall>st. Win32_DiskDrive w (length (calls st)) = drives \<longrightarrow>
      W_check_disks w False st =
        (r, st\<lparr>stdout := stdout st @ p, calls := calls st @ [''Win32_DiskDrive'']\<rparr>)"
proof (cases "W_drives_data w (Suc 0) drives")
  case (Inl e)
  show ?thesis
    by (rule exI [of _ "[]"], rule exI [of _ "Inl e"])
       (simp add: W_check_disks_def W_query_def Inl)
next
  case (Inr dd)
  obtain q where q: "\<And>st. W_print_rows w dd st = st\<lparr>stdout := stdout st @ q\<rparr>"
    using W_print_rows_effect by blast
  show ?thesis
    by (rule exI [of _ "(''You have '' @ str_int (int (length dd)) @ '' hard drives installed'')
                          @ [CHR 0x0A] @ q"],
        rule exI [of _ "Inr None"])
       (simp add: W_check_disks_def W_query_def Inr q py_print_def)
qed


lemma W_check_disks_True:
  "W_drives_data w 1 (Win32_DiskDrive w (length (calls st))) = Inr dd \<Longrightarrow>
     W_check_disks w True st =
       (Inr (Some (W_map_volumes dd (disk_partitions w (Suc (length (calls st)))))),
        st\<lparr>calls := calls st @ [''Win32_DiskDrive'', ''disk_partitions'']\<rparr>)"
  by (simp add: W_check_disks_def W_query_def)

lemma two_drives_data:
  "W_drives_data two_drives 1 (Win32_DiskDrive two_drives (length (calls fresh))) =
     Inr [[FInt 1, FStr ''PHYSICALDRIVE0'', FStr ''Disk drive'', FStr ''465G''],
          [FInt 2, FStr ''PHYSICALDRIVE1'', FStr ''Disk drive'', FStr ''931G'']]"
  by code_simp

subsection \<open>Facts used by the claims below\<close>

lemma py_getitem_in_range:
  "1 \<le> i \<Longrightarrow> i \<le> int (length xs) \<Longrightarrow> py_getitem xs (i - 1) = Inr (xs ! nat (i - 1))"
  by (simp add: py_getitem_def Let_def)

lemma L_partitions_calls:
  "calls (snd (L_partitions w hard_drive_path inp st)) = calls st @ [lsblk_path_cmd hard_drive_path]"
  by (simp add: L_partitions_def os_popen_def py_print_def split: sum.splits)

lemma py_getitem_raises: "py_getitem xs i = Inl e \<Longrightarrow> e = IndexError"
  by (simp add: py_getitem_def Let_def split: if_splits)

lemma L_partitions_raises:
  "fst (L_partitions w hard_drive_path inp st) = Inl e \<Longrightarrow> e = IndexError"
  by (auto simp: L_partitions_def os_popen_def split: sum.splits if_splits dest: py_getitem_raises)

lemma two_disks_data:
  "L_check_disks two_disks True fresh =
     (Inr (Some [(''/dev/sda'', ''232.9G''), (''/dev/sdb'', ''1T'')]),
      \<lparr>stdout = [], calls = [lsblk_disk_cmd]\<rparr>)"
  by code_simp

lemma two_drives_volumes:
  "W_check_disks two_drives True fresh =
     (Inr (Some [[FInt 1, FStr ''PHYSICALDRIVE0'', FStr ''Disk drive'', FStr ''465G'', FVol ''C:''],
                 [FInt 2, FStr ''PHYSICALDRIVE1'', FStr ''Disk drive'', FStr ''931G'']]),
      \<lparr>stdout = [], calls = [''Win32_DiskDrive'', ''disk_partitions'']\<rparr>)"
  by code_simp

lemma py_int_2: "py_int ''2'' = Some 2"
  by code_simp

lemma py_int_dev_sdb: "py_int ''/dev/sdb'' = None"
  by code_simp

lemma snd_discard: "snd (discard r) = snd r"
  by (cases r) (simp add: discard_def split: sum.splits)

lemma py_int_abc: "py_int ''abc'' = None"
  by code_simp

subsection \<open>Selectors outside the list, and the three shapes of a listing\<close>

text \<open>
  An integer selector \<open>i\<close> raises the \<open>IndexError\<close> of lines 66 and 121 when \<open>i > N\<close> or
  \<open>i \<le> -N\<close>; for \<open>-N < i \<le> 0\<close> the index \<open>i - 1\<close> is negative and counts from the end of
  the list.  Lines 77-83 print the "not found" message for an empty listing, raise
  \<open>IndexError\<close> for a listing of one line or with a blank second line, and print the
  header and the lines otherwise.
\<close>

lemma py_getitem_out_of_range:
  "int (length xs) < i \<or> i \<le> - int (length xs) \<Longrightarrow> py_getitem xs (i - 1) = Inl IndexError"
  by (auto simp: py_getitem_def Let_def)

lemma py_getitem_wraps:
  "- int (length xs) < i \<Longrightarrow> i \<le> 0 \<Longrightarrow>
     py_getitem xs (i - 1) = Inr (xs ! nat (i - 1 + int (length xs)))"
  by (auto simp: py_getitem_def Let_def)

lemma L_selector_out_of_range:
  assumes "py_int inp = Some i"
      and "L_check_disks w True st = (Inr (Some disks_list), st1)"
      and "int (length disks_list) < i \<or> i \<le> - int (length disks_list)"
  shows "L_check_specific_drive w inp st =
           discard (L_check_disks w False (py_print ''Please enter the correct hard drive id!'' st1))"
proof -
  let ?s = "py_print ''Please enter the correct hard drive id!'' st1"
  obtain r s2 where r: "L_check_disks w False ?s = (r, s2)" by (cases "L_check_disks w False ?s")
  have "r \<noteq> Inl ValueError"
    using L_check_disks_never_raises [of w False ?s ValueError] r by simp
  then show ?thesis
    using assms r
    by (cases r; cases "projl r")
       (simp_all add: L_check_specific_drive_def py_getitem_out_of_range)
qed

lemma L_selector_wraps:
  assumes "py_int inp = Some i"
      and "L_check_disks w True st = (Inr (Some disks_list), st1)"
      and "- int (length disks_list) < i" and "i \<le> 0"
  shows "L_check_specific_drive w inp st =
           L_partitions w (fst (disks_list ! nat (i - 1 + int (length disks_list)))) inp st1"
  using assms by (simp add: L_check_specific_drive_def py_getitem_wraps)

lemma W_selector_out_of_range:
  assumes "py_int inp = Some i"
      and "W_check_disks w True st = (Inr (Some hard_drives), st1)"
      and "int (length hard_drives) < i \<or> i \<le> - int (length hard_drives)"
  shows "W_check_specific_drive w inp st =
           discard (W_check_disks w False
             (py_print ''Disk with that index does not exist! Please try again.'' st1))"
  using assms
  by (simp add: W_check_specific_drive_def W_except_IndexError_def py_getitem_out_of_range)

lemma W_selector_wraps:
  assumes "py_int inp = Some i"
      and "W_check_disks w True st = (Inr (Some hard_drives), st1)"
      and "- int (length hard_drives) < i" and "i \<le> 0"
  shows "W_check_specific_drive w inp st =
           (Inr (), py_print (py_join ''  '' (map (py_str w)
              (hard_drives ! nat (i - 1 + int (length hard_drives))))) st1)"
  using assms by (simp add: W_check_specific_drive_def py_getitem_wraps)

lemma L_partitions_no_line:
  "w (length (calls st)) (lsblk_path_cmd hard_drive_path) = [] \<Longrightarrow>
     L_partitions w hard_drive_path inp st =
       (Inr (), py_print (''Drive '' @ inp @ '' not found!'')
                  (st\<lparr>calls := calls st @ [lsblk_path_cmd hard_drive_path]\<rparr>))"
  by (simp add: L_partitions_def os_popen_def)

lemma L_partitions_one_line:
  "w (length (calls st)) (lsblk_path_cmd hard_drive_path) = [line] \<Longrightarrow>
     L_partitions w hard_drive_path inp st =
       (Inl IndexError, st\<lparr>calls := calls st @ [lsblk_path_cmd hard_drive_path]\<rparr>)"
  by (simp add: L_partitions_def os_popen_def py_getitem_def)

lemma L_partitions_lines:
  "w (length (calls st)) (lsblk_path_cmd hard_drive_path) = l0 # l1 # rest \<Longrightarrow>
   py_split l1 = name # toks \<Longrightarrow>
     L_partitions w hard_drive_path inp st =
       (Inr (),
        py_print (concat (l0 # l1 # rest))
          (py_print (''Below are the partitions for '' @ [CHR 0x22] @ ''/dev/'' @ name
                      @ [CHR 0x22] @ '' drive:'')
             (st\<lparr>calls := calls st @ [lsblk_path_cmd hard_drive_path]\<rparr>)))"
  by (simp add: L_partitions_def os_popen_def py_getitem_def)

lemma L_partitions_blank_second_line:
  "w (length (calls st)) (lsblk_path_cmd hard_drive_path) = l0 # l1 # rest \<Longrightarrow>
   py_split l1 = [] \<Longrightarrow>
     L_partitions w hard_drive_path inp st =
       (Inl IndexError, st\<lparr>calls := calls st @ [lsblk_path_cmd hard_drive_path]\<rparr>)"
  by (simp add: L_partitions_def os_popen_def py_getitem_def)

subsection \<open>Evaluations on the example machines\<close>

lemma two_rows_data:
  "L_hard_drives_data (L_hard_drives [''sda disk 232.9G'' @ [CHR 0x0A], ''sdb disk 1T'' @ [CHR 0x0A]]) =
     Inr [(''/dev/sda'', ''232.9G''), (''/dev/sdb'', ''1T'')]"
  by code_simp

lemma str_int_1: "str_int 1 = ''1''" by code_simp

lemma str_int_2: "str_int 2 = ''2''" by code_simp

subsection \<open>What the enumerations return\<close>




section \<open>The claims\<close>

text \<open>
  C1.  A selector that parses as an integer \<open>i\<close> with \<open>1 \<le> i \<le> N\<close>, where \<open>N\<close> is the
  length of the list a fresh \<open>check_disks(return_data=True)\<close> returns, selects the \<open>i\<close>-th
  record of that list: the POSIX backend goes on to lines 77-83 with the path of the
  \<open>i\<close>-th record, the Windows backend prints the fields of the \<open>i\<close>-th list joined by two
  spaces.
\<close>

theorem check_specific_drive_selects_ith_record:
  assumes "py_int inp = Some i" and "1 \<le> i"
  shows "(L_check_disks lw True st = (Inr (Some disks_list), st1) \<and> i \<le> int (length disks_list) \<longrightarrow>
            L_check_specific_drive lw inp st =
              L_partitions lw (fst (disks_list ! nat (i - 1))) inp st1)
       \<and> (W_check_disks ww True st = (Inr (Some hard_drives), st2) \<and> i \<le> int (length hard_drives) \<longrightarrow>
            W_check_specific_drive ww inp st =
              (Inr (), py_print (py_join ''  '' (map (py_str ww) (hard_drives ! nat (i - 1)))) st2))"
  using assms
  by (simp add: L_check_specific_drive_def W_check_specific_drive_def py_getitem_in_range)

theorem check_specific_drive_selects_ith_record_witness:
  "py_int ''2'' = Some 2 \<and> (1::int) \<le> 2
   \<and> L_check_disks two_disks True fresh =
        (Inr (Some [(''/dev/sda'', ''232.9G''), (''/dev/sdb'', ''1T'')]),
         \<lparr>stdout = [], calls = [lsblk_disk_cmd]\<rparr>)
   \<and> L_check_specific_drive two_disks ''2'' fresh =
        L_partitions two_disks ''/dev/sdb'' ''2'' \<lparr>stdout = [], calls = [lsblk_disk_cmd]\<rparr>
   \<and> W_check_specific_drive two_drives ''2'' fresh =
        (Inr (), \<lparr>stdout = ''2  PHYSICALDRIVE1  Disk drive  931G'' @ [CHR 0x0A],
                  calls = [''Win32_DiskDrive'', ''disk_partitions'']\<rparr>)"
proof -
  have one: "(1::int) \<le> 2" by simp
  note t = check_specific_drive_selects_ith_record [OF py_int_2 one,
      of two_disks fresh "[(''/dev/sda'', ''232.9G''), (''/dev/sdb'', ''1T'')]"
         "\<lparr>stdout = [], calls = [lsblk_disk_cmd]\<rparr>"
         two_drives
         "[[FInt 1, FStr ''PHYSICALDRIVE0'', FStr ''Disk drive'', FStr ''465G'', FVol ''C:''],
           [FInt 2, FStr ''PHYSICALDRIVE1'', FStr ''Disk drive'', FStr ''931G'']]"
         "\<lparr>stdout = [], calls = [''Win32_DiskDrive'', ''disk_partitions'']\<rparr>"]
  have l: "L_check_specific_drive two_disks ''2'' fresh =
        L_partitions two_disks ''/dev/sdb'' ''2'' \<lparr>stdout = [], calls = [lsblk_disk_cmd]\<rparr>"
    using t [THEN conjunct1] two_disks_data by simp
  have j: "str_int 2 = ''2''"
    by code_simp
  have w: "W_check_specific_drive two_drives ''2'' fresh =
        (Inr (), \<lparr>stdout = ''2  PHYSICALDRIVE1  Disk drive  931G'' @ [CHR 0x0A],
                  calls = [''Win32_DiskDrive'', ''disk_partitions'']\<rparr>)"
    using t [THEN conjunct2] two_drives_volumes by (simp add: j py_str_def py_print_def)
  from py_int_2 one two_disks_data l w show ?thesis by (intro conjI)
qed

text \<open>
  C2.  The claim that every integer selector outside \<open>[1, N]\<close> is reported as out of range
  fails at the selector \<open>0\<close> on a machine with two disks: \<open>int("0") - 1\<close> is \<open>-1\<close>, which
  indexes the last record, so the POSIX backend lists the partitions of \<open>/dev/sdb\<close> and the
  Windows backend prints the fields of drive 2; neither prints its out-of-range message
  nor the fallback listing.
\<close>

theorem selector_zero_selects_last_disk:
  "py_int ''0'' = Some 0
   \<and> L_check_specific_drive two_disks ''0'' fresh =
       (Inr (),
        \<lparr>stdout = ''Below are the partitions for '' @ [CHR 0x22] @ ''/dev/sdb'' @ [CHR 0x22]
                    @ '' drive:'' @ [CHR 0x0A] @ ''NAME TYPE SIZE'' @ [CHR 0x0A]
                    @ ''sdb disk 1T'' @ [CHR 0x0A, CHR 0x0A],
         calls = [lsblk_disk_cmd, lsblk_path_cmd ''/dev/sdb'']\<rparr>)
   \<and> W_check_specific_drive two_drives ''0'' fresh =
       (Inr (),
        \<lparr>stdout = ''2  PHYSICALDRIVE1  Disk drive  931G'' @ [CHR 0x0A],
         calls = [''Win32_DiskDrive'', ''disk_partitions'']\<rparr>)"
  by code_simp

text \<open>
  C3.  The claim that the header of line 80 never faults once the listing has at least
  one line fails when the listing has exactly one: for the selector \<open>-V\<close> the command
  \<open>lsblk -V -o NAME,TYPE,SIZE\<close> writes its version line only, \<open>partitions[1]\<close> raises
  \<open>IndexError\<close>, nothing catches it and nothing is printed.
\<close>

theorem one_line_listing_raises_IndexError:
  "py_int ''-V'' = None
   \<and> two_disks 0 (lsblk_path_cmd ''-V'') = [''lsblk from util-linux 2.37.2'' @ [CHR 0x0A]]
   \<and> L_check_specific_drive two_disks ''-V'' fresh =
       (Inl IndexError, \<lparr>stdout = [], calls = [lsblk_path_cmd ''-V'']\<rparr>)"
  by code_simp

text \<open>
  C4.  On Windows \<open>check_disks(return_data=True)\<close> pairs the drives with the volumes by
  position: when the drive comprehension gives \<open>dd\<close>, the call returns one list per drive,
  raises nothing whatever the two lengths are, the \<open>i\<close>-th list is \<open>dd ! i\<close> with the
  \<open>i\<close>-th volume appended when there is an \<open>i\<close>-th volume and \<open>dd ! i\<close> itself, four fields
  and no volume, when there is none.
\<close>

theorem W_check_disks_pairs_volumes_by_position:
  assumes dd: "W_drives_data w 1 (Win32_DiskDrive w (length (calls st))) = Inr dd"
      and vs: "volumes = disk_partitions w (Suc (length (calls st)))"
  shows "\<exists>res. W_check_disks w True st =
                 (Inr (Some res), st\<lparr>calls := calls st @ [''Win32_DiskDrive'', ''disk_partitions'']\<rparr>)
           \<and> length res = length (Win32_DiskDrive w (length (calls st)))
           \<and> length dd = length res
           \<and> (\<forall>i < length dd.
                 res ! i = (if i < length volumes then dd ! i @ [FVol (volumes ! i)] else dd ! i)
                 \<and> length (dd ! i) = 4 \<and> (\<forall>v. FVol v \<notin> set (dd ! i)))"
proof (intro exI conjI allI impI)
  show "W_check_disks w True st =
          (Inr (Some (W_map_volumes dd volumes)),
           st\<lparr>calls := calls st @ [''Win32_DiskDrive'', ''disk_partitions'']\<rparr>)"
    unfolding vs by (rule W_check_disks_True [OF dd])
  show "length (W_map_volumes dd volumes) = length (Win32_DiskDrive w (length (calls st)))"
    by (simp add: W_map_volumes_length W_drives_data_length [OF dd])
  show "length dd = length (W_map_volumes dd volumes)"
    by (simp add: W_map_volumes_length)
next
  fix i assume i: "i < length dd"
  show "W_map_volumes dd volumes ! i =
          (if i < length volumes then dd ! i @ [FVol (volumes ! i)] else dd ! i)"
    by (rule W_map_volumes_nth [OF i])
  from i have m: "dd ! i \<in> set dd" by simp
  show "length (dd ! i) = 4"
    using W_drives_data_no_volume [OF dd m] by simp
  fix v show "FVol v \<notin> set (dd ! i)"
    using W_drives_data_no_volume [OF dd m] by simp
qed

theorem W_check_disks_pairs_volumes_by_position_witness:
  "W_drives_data two_drives 1 (Win32_DiskDrive two_drives (length (calls fresh))) =
     Inr [[FInt 1, FStr ''PHYSICALDRIVE0'', FStr ''Disk drive'', FStr ''465G''],
          [FInt 2, FStr ''PHYSICALDRIVE1'', FStr ''Disk drive'', FStr ''931G'']]
   \<and> [''C:''] = disk_partitions two_drives (Suc (length (calls fresh)))
   \<and> (\<exists>res. W_check_disks two_drives True fresh =
               (Inr (Some res), fresh\<lparr>calls := calls fresh @ [''Win32_DiskDrive'', ''disk_partitions'']\<rparr>)
         \<and> length res = 2
         \<and> res ! 0 = [FInt 1, FStr ''PHYSICALDRIVE0'', FStr ''Disk drive'', FStr ''465G'',
                       FVol ''C:'']
         \<and> res ! 1 = [FInt 2, FStr ''PHYSICALDRIVE1'', FStr ''Disk drive'', FStr ''931G''])"
proof -
  let ?dd = "[[FInt 1, FStr ''PHYSICALDRIVE0'', FStr ''Disk drive'', FStr ''465G''],
              [FInt 2, FStr ''PHYSICALDRIVE1'', FStr ''Disk drive'', FStr ''931G'' :: string field]]"
  have h: "W_drives_data two_drives 1 (Win32_DiskDrive two_drives (length (calls fresh))) = Inr ?dd"
    by (rule two_drives_data)
  have v: "[''C:''] = disk_partitions two_drives (Suc (length (calls fresh)))"
    by (simp add: two_drives_def)
  from W_check_disks_pairs_volumes_by_position [OF h v]
  obtain res where r: "W_check_disks two_drives True fresh =
               (Inr (Some res), fresh\<lparr>calls := calls fresh @ [''Win32_DiskDrive'', ''disk_partitions'']\<rparr>)"
    and l: "length ?dd = length res"
    and n: "\<forall>i<length ?dd. res ! i = (if i < length [''C:''] then ?dd ! i @ [FVol ([''C:''] ! i)] else ?dd ! i)
                 \<and> length (?dd ! i) = 4 \<and> (\<forall>v. FVol v \<notin> set (?dd ! i))"
    by (elim exE conjE) (rule that)
  have l2: "length res = 2" using l by simp
  from n [rule_format, of 0]
  have r0: "res ! 0 = [FInt 1, FStr ''PHYSICALDRIVE0'', FStr ''Disk drive'', FStr ''465G'',
                       FVol ''C:'']"
    by simp
  from n [rule_format, of 1]
  have r1: "res ! 1 = [FInt 2, FStr ''PHYSICALDRIVE1'', FStr ''Disk drive'', FStr ''931G'']"
    by simp
  from r l2 r0 r1 have "\<exists>res. W_check_disks two_drives True fresh =
               (Inr (Some res), fresh\<lparr>calls := calls fresh @ [''Win32_DiskDrive'', ''disk_partitions'']\<rparr>)
         \<and> length res = 2
         \<and> res ! 0 = [FInt 1, FStr ''PHYSICALDRIVE0'', FStr ''Disk drive'', FStr ''465G'',
                       FVol ''C:'']
         \<and> res ! 1 = [FInt 2, FStr ''PHYSICALDRIVE1'', FStr ''Disk drive'', FStr ''931G'']"
    by (intro exI conjI)
  with h v show ?thesis by (intro conjI)
qed

text \<open>
  C5.  A selector that \<open>int\<close> rejects is taken as the device path by the POSIX backend:
  \<open>check_specific_drive\<close> is lines 77-83 run on the selector itself, the only command it
  issues is \<open>lsblk <selector> -o NAME,TYPE,SIZE\<close>, and the \<open>ValueError\<close> of the
  conversion does not leave the method.
\<close>

theorem L_non_integer_selector_is_path:
  assumes "py_int inp = None"
  shows "L_check_specific_drive w inp st = L_partitions w inp inp st
       \<and> calls (snd (L_check_specific_drive w inp st)) =
           calls st @ [''lsblk '' @ inp @ '' -o NAME,TYPE,SIZE'']
       \<and> fst (L_check_specific_drive w inp st) \<noteq> Inl ValueError"
proof (intro conjI)
  show eq: "L_check_specific_drive w inp st = L_partitions w inp inp st"
    using assms by (simp add: L_check_specific_drive_def)
  show "calls (snd (L_check_specific_drive w inp st)) =
          calls st @ [''lsblk '' @ inp @ '' -o NAME,TYPE,SIZE'']"
    unfolding eq L_partitions_calls by (simp add: lsblk_path_cmd_def)
  show "fst (L_check_specific_drive w inp st) \<noteq> Inl ValueError"
    unfolding eq using L_partitions_raises [of w inp inp st ValueError] by auto
qed

theorem L_non_integer_selector_is_path_witness:
  "py_int ''/dev/sdb'' = None
   \<and> L_check_specific_drive two_disks ''/dev/sdb'' fresh =
       L_partitions two_disks ''/dev/sdb'' ''/dev/sdb'' fresh
   \<and> calls (snd (L_check_specific_drive two_disks ''/dev/sdb'' fresh)) =
       calls fresh @ [''lsblk '' @ ''/dev/sdb'' @ '' -o NAME,TYPE,SIZE'']
   \<and> fst (L_check_specific_drive two_disks ''/dev/sdb'' fresh) \<noteq> Inl ValueError"
  using L_non_integer_selector_is_path [OF py_int_dev_sdb, of two_disks fresh] py_int_dev_sdb
  by (intro conjI) (elim conjE, assumption)+

text \<open>
  C6.  For a selector that \<open>int\<close> rejects the Windows backend prints the usage hint and
  then does what \<open>check_disks()\<close> does: standard output grows by the hint, an empty line
  and the text \<open>check_disks()\<close> prints, and the only query issued is the enumeration of
  the drives, so the selector is never used as a path.
\<close>

theorem W_non_integer_selector_prints_hint:
  assumes "py_int inp = None"
  shows "W_check_specific_drive w inp st =
           discard (W_check_disks w False
             (py_print (''Please enter valid disk (whole) number! Reference below. '' @ [CHR 0x0A]) st))
       \<and> (\<exists>report. stdout (snd (W_check_specific_drive w inp st)) =
              stdout st @ ''Please enter valid disk (whole) number! Reference below. ''
                @ [CHR 0x0A, CHR 0x0A] @ report
            \<and> stdout (snd (W_check_disks w False st)) = stdout st @ report)
       \<and> calls (snd (W_check_specific_drive w inp st)) = calls st @ [''Win32_DiskDrive'']"
proof -
  define sh where
    "sh = py_print (''Please enter valid disk (whole) number! Reference below. '' @ [CHR 0x0A]) st"
  have sh_out: "stdout sh = stdout st @ ''Please enter valid disk (whole) number! Reference below. ''
                  @ [CHR 0x0A, CHR 0x0A]"
    and sh_calls: "calls sh = calls st"
    by (simp_all add: sh_def py_print_def)
  have eq: "W_check_specific_drive w inp st =
           discard (W_check_disks w False
             (py_print (''Please enter valid disk (whole) number! Reference below. '' @ [CHR 0x0A]) st))"
    using assms by (simp add: W_check_specific_drive_def W_except_ValueError_def)
  then have eq': "W_check_specific_drive w inp st = discard (W_check_disks w False sh)"
    by (simp only: sh_def)
  obtain p r where p: "\<And>s. Win32_DiskDrive w (length (calls s)) = Win32_DiskDrive w (length (calls st)) \<Longrightarrow>
      W_check_disks w False s =
        (r, s\<lparr>stdout := stdout s @ p, calls := calls s @ [''Win32_DiskDrive'']\<rparr>)"
    using W_check_disks_False [of w "Win32_DiskDrive w (length (calls st))"] by (elim exE) simp
  have a: "W_check_disks w False st =
        (r, st\<lparr>stdout := stdout st @ p, calls := calls st @ [''Win32_DiskDrive'']\<rparr>)"
    by (rule p) simp
  have b: "W_check_disks w False sh =
        (r, sh\<lparr>stdout := stdout sh @ p, calls := calls sh @ [''Win32_DiskDrive'']\<rparr>)"
    by (rule p) (simp add: sh_calls)
  have c: "\<exists>report. stdout (snd (W_check_specific_drive w inp st)) =
              stdout st @ ''Please enter valid disk (whole) number! Reference below. ''
                @ [CHR 0x0A, CHR 0x0A] @ report
            \<and> stdout (snd (W_check_disks w False st)) = stdout st @ report"
    by (rule exI [of _ p]) (simp add: eq' snd_discard a b sh_out)
  have d: "calls (snd (W_check_specific_drive w inp st)) = calls st @ [''Win32_DiskDrive'']"
    by (simp add: eq' snd_discard b sh_calls)
  from eq c d show ?thesis by (intro conjI)
qed

theorem W_non_integer_selector_prints_hint_witness:
  "py_int ''abc'' = None
   \<and> (\<exists>report. stdout (snd (W_check_specific_drive two_drives ''abc'' fresh)) =
              stdout fresh @ ''Please enter valid disk (whole) number! Reference below. ''
                @ [CHR 0x0A, CHR 0x0A] @ report
            \<and> stdout (snd (W_check_disks two_drives False fresh)) = stdout fresh @ report)
   \<and> calls (snd (W_check_specific_drive two_drives ''abc'' fresh)) =
       calls fresh @ [''Win32_DiskDrive'']"
  using W_non_integer_selector_prints_hint [OF py_int_abc, of two_drives fresh] py_int_abc
  by (intro conjI) (elim conjE, assumption)+

text \<open>
  C7.  When the listing command answers with the two rows \<open>sda disk 232.9G\<close> and
  \<open>sdb disk 1T\<close>, \<open>check_disks(return_data=True)\<close> returns the records
  \<open>(/dev/sda, 232.9G)\<close> and \<open>(/dev/sdb, 1T)\<close>, and \<open>check_disks()\<close> prints the line
  \<open>You have 2 hard drives installed: \<close> (it ends with a colon and a space), an empty line,
  and the lines \<open>1. /dev/sda -> 232.9G\<close> and \<open>2. /dev/sdb -> 1T\<close>.
\<close>

theorem L_check_disks_two_rows:
  assumes "w (length (calls st)) lsblk_disk_cmd =
             [''sda disk 232.9G'' @ [CHR 0x0A], ''sdb disk 1T'' @ [CHR 0x0A]]"
  shows "L_check_disks w True st =
           (Inr (Some [(''/dev/sda'', ''232.9G''), (''/dev/sdb'', ''1T'')]),
            st\<lparr>calls := calls st @ [lsblk_disk_cmd]\<rparr>)
       \<and> L_check_disks w False st =
           (Inr None,
            st\<lparr>calls := calls st @ [lsblk_disk_cmd],
               stdout := stdout st @ ''You have 2 hard drives installed: '' @ [CHR 0x0A, CHR 0x0A]
                  @ ''1. /dev/sda -> 232.9G'' @ [CHR 0x0A]
                  @ ''2. /dev/sdb -> 1T'' @ [CHR 0x0A]\<rparr>)"
  using assms two_rows_data
  by (simp add: L_check_disks_def os_popen_def py_print_def L_header_def str_int_1 str_int_2)

theorem L_check_disks_two_rows_witness:
  "two_disks (length (calls fresh)) lsblk_disk_cmd =
             [''sda disk 232.9G'' @ [CHR 0x0A], ''sdb disk 1T'' @ [CHR 0x0A]]
   \<and> L_check_disks two_disks True fresh =
           (Inr (Some [(''/dev/sda'', ''232.9G''), (''/dev/sdb'', ''1T'')]),
            fresh\<lparr>calls := calls fresh @ [lsblk_disk_cmd]\<rparr>)
   \<and> L_check_disks two_disks False fresh =
           (Inr None,
            fresh\<lparr>calls := calls fresh @ [lsblk_disk_cmd],
               stdout := stdout fresh @ ''You have 2 hard drives installed: '' @ [CHR 0x0A, CHR 0x0A]
                  @ ''1. /dev/sda -> 232.9G'' @ [CHR 0x0A]
                  @ ''2. /dev/sdb -> 1T'' @ [CHR 0x0A]\<rparr>)"
proof -
  have h: "two_disks (length (calls fresh)) lsblk_disk_cmd =
             [''sda disk 232.9G'' @ [CHR 0x0A], ''sdb disk 1T'' @ [CHR 0x0A]]"
    by (simp add: two_disks_def)
  from h L_check_disks_two_rows [of two_disks fresh, OF h] show ?thesis by (intro conjI) (elim conjE, assumption)+
qed

text \<open>
  The printed report is therefore not the three lines \<open>You have 2 hard drives installed\<close>,
  \<open>1. /dev/sda -> 232.9G\<close>, \<open>2. /dev/sdb -> 1T\<close>: cut at the line ends, its first line
  carries the colon and the space, and its second line is empty.
\<close>

theorem L_check_disks_two_rows_header_differs:
  "py_split_sep (CHR 0x0A) (stdout (snd (L_check_disks two_disks False fresh))) \<noteq>
     [''You have 2 hard drives installed'', ''1. /dev/sda -> 232.9G'', ''2. /dev/sdb -> 1T'', '''']"
  by code_simp

text \<open>
  C8.  Two consecutive calls of \<open>check_disks()\<close> print the same text when the operating
  system answers both queries alike: after the second call standard output is the old
  text followed by the first call's text twice.  On Windows this includes the case where
  \<open>int(d.size)\<close> raises in both calls and nothing is printed.
\<close>

theorem check_disks_print_idempotent:
  "(lw (length (calls st)) lsblk_disk_cmd = lw (Suc (length (calls st))) lsblk_disk_cmd \<longrightarrow>
      (\<exists>p. stdout (snd (L_check_disks lw False st)) = stdout st @ p
          \<and> stdout (snd (L_check_disks lw False (snd (L_check_disks lw False st)))) =
              stdout st @ p @ p))
   \<and> (Win32_DiskDrive ww (length (calls st)) = Win32_DiskDrive ww (Suc (length (calls st))) \<longrightarrow>
      (\<exists>p. stdout (snd (W_check_disks ww False st)) = stdout st @ p
          \<and> stdout (snd (W_check_disks ww False (snd (W_check_disks ww False st)))) =
              stdout st @ p @ p))"
proof (intro conjI impI)
  assume same: "lw (length (calls st)) lsblk_disk_cmd = lw (Suc (length (calls st))) lsblk_disk_cmd"
  obtain p where p: "\<And>w s. w (length (calls s)) lsblk_disk_cmd = lw (length (calls st)) lsblk_disk_cmd \<Longrightarrow>
      L_check_disks w False s =
        (Inr None, s\<lparr>stdout := stdout s @ p, calls := calls s @ [lsblk_disk_cmd]\<rparr>)"
    using L_check_disks_False [of "lw (length (calls st)) lsblk_disk_cmd"] by (elim exE) simp
  have first: "L_check_disks lw False st =
        (Inr None, st\<lparr>stdout := stdout st @ p, calls := calls st @ [lsblk_disk_cmd]\<rparr>)"
    by (rule p) simp
  have second: "L_check_disks lw False (st\<lparr>stdout := stdout st @ p, calls := calls st @ [lsblk_disk_cmd]\<rparr>) =
        (Inr None, st\<lparr>stdout := stdout st @ p, calls := calls st @ [lsblk_disk_cmd]\<rparr>
           \<lparr>stdout := stdout (st\<lparr>stdout := stdout st @ p, calls := calls st @ [lsblk_disk_cmd]\<rparr>) @ p,
            calls := calls (st\<lparr>stdout := stdout st @ p, calls := calls st @ [lsblk_disk_cmd]\<rparr>) @ [lsblk_disk_cmd]\<rparr>)"
    by (rule p) (simp add: same)
  show "\<exists>p. stdout (snd (L_check_disks lw False st)) = stdout st @ p
          \<and> stdout (snd (L_check_disks lw False (snd (L_check_disks lw False st)))) =
              stdout st @ p @ p"
    by (rule exI [of _ p]) (simp add: first second)
next
  assume same: "Win32_DiskDrive ww (length (calls st)) = Win32_DiskDrive ww (Suc (length (calls st)))"
  obtain p r where p: "\<And>s. Win32_DiskDrive ww (length (calls s)) = Win32_DiskDrive ww (length (calls st)) \<Longrightarrow>
      W_check_disks ww False s =
        (r, s\<lparr>stdout := stdout s @ p, calls := calls s @ [''Win32_DiskDrive'']\<rparr>)"
    using W_check_disks_False [of ww "Win32_DiskDrive ww (length (calls st))"] by (elim exE) simp
  have first: "W_check_disks ww False st =
        (r, st\<lparr>stdout := stdout st @ p, calls := calls st @ [''Win32_DiskDrive'']\<rparr>)"
    by (rule p) simp
  have second: "W_check_disks ww False (st\<lparr>stdout := stdout st @ p, calls := calls st @ [''Win32_DiskDrive'']\<rparr>) =
        (r, st\<lparr>stdout := stdout st @ p, calls := calls st @ [''Win32_DiskDrive'']\<rparr>
           \<lparr>stdout := stdout (st\<lparr>stdout := stdout st @ p, calls := calls st @ [''Win32_DiskDrive'']\<rparr>) @ p,
            calls := calls (st\<lparr>stdout := stdout st @ p, calls := calls st @ [''Win32_DiskDrive'']\<rparr>) @ [''Win32_DiskDrive'']\<rparr>)"
    by (rule p) (simp add: same)
  show "\<exists>p. stdout (snd (W_check_disks ww False st)) = stdout st @ p
          \<and> stdout (snd (W_check_disks ww False (snd (W_check_disks ww False st)))) =
              stdout st @ p @ p"
    by (rule exI [of _ p]) (simp add: first second)
qed

theorem check_disks_print_idempotent_witness:
  "two_disks (length (calls fresh)) lsblk_disk_cmd = two_disks (Suc (length (calls fresh))) lsblk_disk_cmd
   \<and> Win32_DiskDrive two_drives (length (calls fresh)) = Win32_DiskDrive two_drives (Suc (length (calls fresh)))
   \<and> (\<exists>p. stdout (snd (L_check_disks two_disks False fresh)) = stdout fresh @ p
          \<and> stdout (snd (L_check_disks two_disks False (snd (L_check_disks two_disks False fresh)))) =
              stdout fresh @ p @ p)
   \<and> (\<exists>p. stdout (snd (W_check_disks two_drives False fresh)) = stdout fresh @ p
          \<and> stdout (snd (W_check_disks two_drives False (snd (W_check_disks two_drives False fresh)))) =
              stdout fresh @ p @ p)"
proof (intro conjI)
  show l: "two_disks (length (calls fresh)) lsblk_disk_cmd = two_disks (Suc (length (calls fresh))) lsblk_disk_cmd"
    by (simp add: two_disks_def)
  show w: "Win32_DiskDrive two_drives (length (calls fresh)) = Win32_DiskDrive two_drives (Suc (length (calls fresh)))"
    by (simp add: two_drives_def)
  show "\<exists>p. stdout (snd (L_check_disks two_disks False fresh)) = stdout fresh @ p
          \<and> stdout (snd (L_check_disks two_disks False (snd (L_check_disks two_disks False fresh)))) =
              stdout fresh @ p @ p"
    by (rule check_disks_print_idempotent [of two_disks fresh two_drives, THEN conjunct1, THEN mp, OF l])
  show "\<exists>p. stdout (snd (W_check_disks two_drives False fresh)) = stdout fresh @ p
          \<and> stdout (snd (W_check_disks two_drives False (snd (W_check_disks two_drives False fresh)))) =
              stdout fresh @ p @ p"
    by (rule check_disks_print_idempotent [of two_disks fresh two_drives, THEN conjunct2, THEN mp, OF w])
qed




text \<open>
  C10.  The constructor of either backend lists all disks when the selector is absent
  or the empty string, and describes one disk exactly when the selector is a non-empty
  string; the same holds for the entry point called with an empty second argument.
\<close>

theorem init_runs_describe_one_iff_selector_nonempty:
  "L_init lw None st = discard (L_check_disks lw False st)
   \<and> L_init lw (Some []) st = discard (L_check_disks lw False st)
   \<and> W_init ww None st = discard (W_check_disks ww False st)
   \<and> W_init ww (Some []) st = discard (W_check_disks ww False st)
   \<and> (s \<noteq> [] \<longrightarrow> L_init lw (Some s) st = L_check_specific_drive lw s st
                 \<and> W_init ww (Some s) st = W_check_specific_drive ww s st)
   \<and> main lw ww ''posix'' [prog, []] st = discard (L_check_disks lw False st)
   \<and> main lw ww ''nt'' [prog, []] st = discard (W_check_disks ww False st)
   \<and> (s \<noteq> [] \<longrightarrow> main lw ww ''posix'' [prog, s] st = L_check_specific_drive lw s st
                 \<and> main lw ww ''nt'' [prog, s] st = W_check_specific_drive ww s st)"
  by (simp add: L_init_def W_init_def main_def)

theorem init_runs_describe_one_iff_selector_nonempty_witness:
  "''2'' \<noteq> []
   \<and> L_init two_disks (Some ''2'') fresh = L_check_specific_drive two_disks ''2'' fresh
   \<and> W_init two_drives (Some ''2'') fresh = W_check_specific_drive two_drives ''2'' fresh
   \<and> main two_disks two_drives ''posix'' [''disk_size.py'', ''2''] fresh =
        L_check_specific_drive two_disks ''2'' fresh
   \<and> main two_disks two_drives ''nt'' [''disk_size.py'', ''2''] fresh =
        W_check_specific_drive two_drives ''2'' fresh"
  using init_runs_describe_one_iff_selector_nonempty
          [of two_disks fresh two_drives "''2''" "''disk_size.py''"]
  by simp

end
